theory Spec2Isabelle
  imports Complex_Main
begin

section \<open>AQI prediction app: calibration and bucket assignment\<close>

text \<open>
  The app computes with Python floats. They are idealised here as \<^typ>\<open>real\<close>, the
  type over which the specification states its properties; rounding, infinities and
  NaN are outside this model. Python \<open>str\<close> values are \<^typ>\<open>string\<close>, with every
  character beyond ASCII written as the bytes of its UTF-8 encoding.
\<close>

subsection \<open>Marker symbols returned by the bucket function\<close>

definition green_circle :: string where
  "green_circle = [CHR 0xF0, CHR 0x9F, CHR 0x9F, CHR 0xA2]"

definition yellow_circle :: string where
  "yellow_circle = [CHR 0xF0, CHR 0x9F, CHR 0x9F, CHR 0xA1]"

definition orange_circle :: string where
  "orange_circle = [CHR 0xF0, CHR 0x9F, CHR 0x9F, CHR 0xA0]"

definition red_circle :: string where
  "red_circle = [CHR 0xF0, CHR 0x9F, CHR 0x94, CHR 0xB4]"

definition purple_circle :: string where
  "purple_circle = [CHR 0xF0, CHR 0x9F, CHR 0x9F, CHR 0xA3]"

definition black_circle :: string where
  "black_circle = [CHR 0xE2, CHR 0x9A, CHR 0xAB]"

subsection \<open>\<open>assign_aqi_bucket\<close> (app.py, lines 27-40)\<close>

text \<open>
  The \<open>if\<close>/\<open>elif\<close> chain of the source, branch by branch and in its order. Each
  branch returns the two-tuple of a label and a marker.
\<close>

definition assign_aqi_bucket :: "real \<Rightarrow> string \<times> string" where
  "assign_aqi_bucket aqi =
     (if aqi \<le> 50 then (''Good'', green_circle)
      else if aqi \<le> 100 then (''Satisfactory'', yellow_circle)
      else if aqi \<le> 200 then (''Moderate'', orange_circle)
      else if aqi \<le> 300 then (''Poor'', red_circle)
      else if aqi \<le> 400 then (''Very Poor'', purple_circle)
      else (''Severe'', black_circle))"

subsection \<open>Calibration and clipping (app.py, lines 142-145)\<close>

text \<open>
  \<open>np.clip(a, a_min, a_max)\<close> on a scalar is \<open>minimum(maximum(a, a_min), a_max)\<close>.
\<close>

definition np_clip :: "real \<Rightarrow> real \<Rightarrow> real \<Rightarrow> real" where
  "np_clip a a_min a_max = min (max a a_min) a_max"

text \<open>
  The two assignments to \<open>calibrated_aqi\<close>: the affine correction of the raw prediction,
  then the clip to the range 0 to 500.
\<close>

definition calibrated_aqi :: "real \<Rightarrow> real" where
  "calibrated_aqi predicted_aqi =
     (let calibrated = 1.05 * predicted_aqi + 10
      in np_clip calibrated 0 500)"

subsection \<open>The specification's own notions, for comparison with the code\<close>

text \<open>
  The clamp as the specification words it: values below the lower end become the lower
  end, values above the upper end become the upper end, the others are unchanged.
\<close>

definition spec_clamp :: "real \<Rightarrow> real \<Rightarrow> real \<Rightarrow> real" where
  "spec_clamp x lo hi = (if x < lo then lo else if hi < x then hi else x)"

text \<open>
  The six bands as the specification's data model lists them: each is open at its lower
  end and closed at its upper end. A band is its lower end, whether that end belongs to
  it, and its upper end (which always belongs to it); it is paired with the label and
  marker that the code returns for it.
\<close>

type_synonym band = "bool \<times> real \<times> real"

definition in_band :: "band \<Rightarrow> real \<Rightarrow> bool" where
  "in_band b v \<longleftrightarrow>
     (case b of (lower_closed, lo, hi) \<Rightarrow> (if lower_closed then lo \<le> v else lo < v) \<and> v \<le> hi)"

definition spec_bands :: "(band \<times> (string \<times> string)) list" where
  "spec_bands =
     [((False, 0, 50), (''Good'', green_circle)),
      ((False, 50, 100), (''Satisfactory'', yellow_circle)),
      ((False, 100, 200), (''Moderate'', orange_circle)),
      ((False, 200, 300), (''Poor'', red_circle)),
      ((False, 300, 400), (''Very Poor'', purple_circle)),
      ((False, 400, 500), (''Severe'', black_circle))]"

text \<open>The same six bands with the lower end 0 of the first one belonging to it.\<close>

definition closed_bands :: "(band \<times> (string \<times> string)) list" where
  "closed_bands =
     [((True, 0, 50), (''Good'', green_circle)),
      ((False, 50, 100), (''Satisfactory'', yellow_circle)),
      ((False, 100, 200), (''Moderate'', orange_circle)),
      ((False, 200, 300), (''Poor'', red_circle)),
      ((False, 300, 400), (''Very Poor'', purple_circle)),
      ((False, 400, 500), (''Severe'', black_circle))]"

text \<open>The bands of a list that hold a value, in the list's order.\<close>

definition bands_holding ::
  "(band \<times> (string \<times> string)) list \<Rightarrow> real \<Rightarrow> (band \<times> (string \<times> string)) list" where
  "bands_holding bands v = filter (\<lambda>bl. in_band (fst bl) v) bands"

section \<open>The app script (app.py), run once from top to bottom\<close>

text \<open>
  Streamlit runs the script from its first line on every interaction. One run is
  modelled as a function of what the run reads from its environment: the artifact
  files, the selected radio option, the values of the number fields and whether the
  button was pressed. The run yields the elements it puts on the page, in order, and
  how it ended.
\<close>

subsection \<open>Exceptions, artifacts and the environment of a run\<close>

text \<open>
  A raised exception is an instance of Python's \<open>Exception\<close>, the class that both
  \<open>except\<close> clauses of the script name; it is represented by its text \<open>str(e)\<close>, the only
  part the script uses. Exits of the interpreter and keyboard interrupts, which are not
  of that class, are outside the model.
\<close>

type_synonym exn = string

text \<open>
  An unpickled object: its truth value (read by \<open>all\<close>), and what its \<open>transform\<close> and
  \<open>predict\<close> methods do, each either raising or returning an array. The one-row input
  matrix and the arrays are lists of numbers. Python's \<open>None\<close> is the \<open>None\<close> of the
  option type over artifacts.
\<close>

record artifact =
  truthy :: bool
  transform :: "real list \<Rightarrow> exn + real list"
  predict :: "real list \<Rightarrow> exn + real list"

text \<open>
  \<open>files\<close> gives, for a path, what \<open>open(path, "rb")\<close> followed by \<open>pickle.load\<close> does:
  it raises, or it returns an object (which may be \<open>None\<close>).
\<close>

record env =
  files :: "string \<Rightarrow> exn + artifact option"
  radio_choice :: string
  number_inputs :: "string \<Rightarrow> real"
  button_pressed :: bool

subsection \<open>What a run produces\<close>

text \<open>
  One constructor per Streamlit call of the script, with the texts it is given.
  \<open>InColumn i\<close> is an element placed in the column of index \<open>i\<close> (\<open>with cols[i]\<close>).
  The metric carries the number itself; its rendering with two decimals is not modelled.
\<close>

datatype ui_event =
    PageConfig string string string
  | Error string
  | Title string
  | Markdown string
  | Radio string "string list"
  | NumberInput string
  | Button string
  | Metric string real
  | Info string
  | Caption string
  | InColumn nat ui_event

text \<open>
  The four global variables that hold the artifacts, and a log of the method calls
  made on them, kept beside the run so that the calls of a run can be counted.
\<close>

datatype slot = ModelWith | ModelWithout | ScalerWith | ScalerWithout

datatype call = Transform slot | Predict slot

text \<open>
  A run ends by reaching the last line, by \<open>st.stop()\<close>, or by a \<open>KeyError\<close> of the
  \<open>units\<close> lookup, which no handler catches.
\<close>

datatype outcome = Completed | Stopped | KeyError string

record run =
  shown :: "ui_event list"
  calls :: "call list"
  outcome :: outcome

subsection \<open>\<open>load_pickle\<close> (lines 19-25)\<close>

definition cross_mark :: string where
  "cross_mark = [CHR 0xE2, CHR 0x9D, CHR 0x8C]"

text \<open>
  The \<open>try\<close> returns the loaded object; the handler shows the error with the path and
  the exception's text and returns \<open>None\<close>. The first component is what the call shows.
\<close>

definition load_pickle ::
  "(string \<Rightarrow> exn + artifact option) \<Rightarrow> string \<Rightarrow> ui_event list \<times> artifact option" where
  "load_pickle fs path =
     (case fs path of
        Inr obj \<Rightarrow> ([], obj)
      | Inl e \<Rightarrow>
          ([Error (cross_mark @ '' Failed to load file: '' @ path @ [CHR 0x0A] @ ''Error: '' @ e)],
           None))"

subsection \<open>Loading the models and scalers (lines 46-54)\<close>

text \<open>Python's truth value of an object, and \<open>all\<close> on a list of objects.\<close>

definition py_bool :: "artifact option \<Rightarrow> bool" where
  "py_bool obj = (case obj of None \<Rightarrow> False | Some a \<Rightarrow> truthy a)"

definition py_all :: "artifact option list \<Rightarrow> bool" where
  "py_all objs = list_all py_bool objs"

definition artifact_paths :: "string list" where
  "artifact_paths =
     [''best_model_with_Xylene.pkl'', ''best_model.pkl'', ''scaler_with.pkl'',
      ''scaler_without.pkl'']"

definition missing_message :: string where
  "missing_message =
     cross_mark @ '' Missing model or scaler file(s). Please ensure all are present.''"

subsection \<open>Feature definitions (lines 60-80)\<close>

definition features_without :: "string list" where
  "features_without =
     [''PM2.5'', ''PM10'', ''NO'', ''NO2'', ''NOx'',
      ''NH3'', ''CO'', ''SO2'', ''O3'', ''Benzene'', ''Toluene'']"

definition features_with :: "string list" where
  "features_with = features_without @ [''Xylene'']"

definition ug_m3 :: string where
  "ug_m3 = [CHR 0xC2, CHR 0xB5] @ ''g/m'' @ [CHR 0xC2, CHR 0xB3]"

definition mg_m3 :: string where
  "mg_m3 = ''mg/m'' @ [CHR 0xC2, CHR 0xB3]"

definition units :: "(string \<times> string) list" where
  "units =
     [(''PM2.5'', ug_m3),
      (''PM10'', ug_m3),
      (''NO'', ug_m3),
      (''NO2'', ug_m3),
      (''NOx'', ug_m3),
      (''NH3'', ug_m3),
      (''CO'', mg_m3),
      (''SO2'', ug_m3),
      (''O3'', ug_m3),
      (''Benzene'', ug_m3),
      (''Toluene'', ug_m3),
      (''Xylene'', ug_m3)]"

subsection \<open>The interface (lines 86-112)\<close>

definition fog :: string where
  "fog = [CHR 0xF0, CHR 0x9F, CHR 0x8C, CHR 0xAB, CHR 0xEF, CHR 0xB8, CHR 0x8F]"

definition intro_text :: string where
  "intro_text =
     [CHR 0x0A] @
     ''Enter pollutant concentrations below to predict the **Air Quality Index (AQI)** and its corresponding category.'' @
     [CHR 0x0A]"

definition interface_head :: "ui_event list" where
  "interface_head =
     [Title (fog @ '' Air Quality Index (AQI) Prediction''),
      Markdown intro_text,
      Radio ''Choose Model Type:'' [''With Xylene'', ''Without Xylene''],
      Markdown (''### '' @ [CHR 0xF0, CHR 0x9F, CHR 0xA7, CHR 0xAA] @ '' Enter Pollutant Levels'')]"

definition selected_features :: "string \<Rightarrow> string list" where
  "selected_features model_choice =
     (if model_choice = ''With Xylene'' then features_with else features_without)"

text \<open>
  \<open>user_input[feature] = value\<close> on a Python dict, which keeps its keys in the order of
  their first insertion: an existing key keeps its place and gets the new value, a new
  key goes to the end.
\<close>

fun dict_set :: "(string \<times> real) list \<Rightarrow> string \<Rightarrow> real \<Rightarrow> (string \<times> real) list" where
  "dict_set [] k v = [(k, v)]"
| "dict_set ((k', v') # d) k v =
     (if k' = k then (k, v) # d else (k', v') # dict_set d k v)"

text \<open>
  The loop over \<open>enumerate(selected_features)\<close>, from index \<open>i\<close> on. Each round looks the
  unit up (a missing key raises \<open>KeyError\<close>), shows a number field in column \<open>i % 3\<close>
  with the feature and its unit as the label, and stores the field's value under the
  feature's name. The result is the fields shown and either the key that was missing
  or the filled \<open>user_input\<close>.
\<close>

fun input_loop ::
  "(string \<Rightarrow> real) \<Rightarrow> nat \<Rightarrow> string list \<Rightarrow> ui_event list \<Rightarrow> (string \<times> real) list \<Rightarrow>
     ui_event list \<times> (string + (string \<times> real) list)" where
  "input_loop inputs i [] evs user_input = (evs, Inr user_input)"
| "input_loop inputs i (feature # rest) evs user_input =
     (case map_of units feature of
        None \<Rightarrow> (evs, Inl feature)
      | Some unit \<Rightarrow>
          (let label = feature @ '' ('' @ unit @ '')''
           in input_loop inputs (Suc i) rest
                (evs @ [InColumn (i mod 3) (NumberInput label)])
                (dict_set user_input feature (inputs label))))"

subsection \<open>Prediction (lines 118-171)\<close>

definition attribute_error :: "string \<Rightarrow> exn" where
  "attribute_error name =
     [CHR 0x27] @ ''NoneType'' @ [CHR 0x27] @ '' object has no attribute '' @
     [CHR 0x27] @ name @ [CHR 0x27]"

text \<open>A method call on an object; on \<open>None\<close> it raises \<open>AttributeError\<close>.\<close>

definition py_transform :: "artifact option \<Rightarrow> real list \<Rightarrow> exn + real list" where
  "py_transform obj x =
     (case obj of None \<Rightarrow> Inl (attribute_error ''transform'') | Some a \<Rightarrow> transform a x)"

definition py_predict :: "artifact option \<Rightarrow> real list \<Rightarrow> exn + real list" where
  "py_predict obj x =
     (case obj of None \<Rightarrow> Inl (attribute_error ''predict'') | Some a \<Rightarrow> predict a x)"

text \<open>The subscript \<open>[0]\<close> on the predicted array; on an empty array NumPy raises.\<close>

definition item0 :: "real list \<Rightarrow> exn + real" where
  "item0 out =
     (case out of
        [] \<Rightarrow> Inl ''index 0 is out of bounds for axis 0 with size 0''
      | y # _ \<Rightarrow> Inr y)"

text \<open>
  The body of the \<open>try\<close> (lines 131-132): what it calls, and the exception it raises or
  the value of \<open>predicted_aqi\<close>. The model and the scaler come with the global variable
  they were taken from.
\<close>

definition try_body ::
  "slot \<times> artifact option \<Rightarrow> slot \<times> artifact option \<Rightarrow> real list \<Rightarrow> call list \<times> (exn + real)" where
  "try_body model scaler input_values =
     (case py_transform (snd scaler) input_values of
        Inl e \<Rightarrow> ([Transform (fst scaler)], Inl e)
      | Inr input_scaled \<Rightarrow>
          (case py_predict (snd model) input_scaled of
             Inl e \<Rightarrow> ([Transform (fst scaler), Predict (fst model)], Inl e)
           | Inr out \<Rightarrow> ([Transform (fst scaler), Predict (fst model)], item0 out)))"

definition ranges_info :: string where
  "ranges_info =
     [CHR 0x0A] @ ''**AQI Ranges:**'' @ [CHR 0x0A] @
     ''- 0'' @ [CHR 0xE2, CHR 0x80, CHR 0x93] @ ''50: Good  '' @ [CHR 0x0A] @
     ''- 51'' @ [CHR 0xE2, CHR 0x80, CHR 0x93] @ ''100: Satisfactory  '' @ [CHR 0x0A] @
     ''- 101'' @ [CHR 0xE2, CHR 0x80, CHR 0x93] @ ''200: Moderate  '' @ [CHR 0x0A] @
     ''- 201'' @ [CHR 0xE2, CHR 0x80, CHR 0x93] @ ''300: Poor  '' @ [CHR 0x0A] @
     ''- 301'' @ [CHR 0xE2, CHR 0x80, CHR 0x93] @ ''400: Very Poor  '' @ [CHR 0x0A] @
     ''- 401'' @ [CHR 0xE2, CHR 0x80, CHR 0x93] @ ''500: Severe'' @ [CHR 0x0A]"

text \<open>The display of a result (lines 148-171).\<close>

definition results_display :: "real \<Rightarrow> ui_event list" where
  "results_display calibrated =
     (case assign_aqi_bucket calibrated of
        (bucket, emoji) \<Rightarrow>
          [Markdown ''---'',
           Markdown (''## '' @ [CHR 0xF0, CHR 0x9F, CHR 0x8C, CHR 0xA1, CHR 0xEF, CHR 0xB8, CHR 0x8F] @
             '' Predicted Results''),
           InColumn 0 (Metric ''Predicted AQI'' calibrated),
           InColumn 1 (Markdown (''### '' @ emoji @ '' Air Quality Category: **'' @ bucket @ ''**'')),
           Info ranges_info])"

text \<open>
  The body of \<open>if st.button(...)\<close>: the input row in the order of the dict's keys, the
  choice of model and scaler, the \<open>try\<close> with its handler, then calibration, clipping
  and display.
\<close>

definition prediction ::
  "string \<Rightarrow> artifact option \<Rightarrow> artifact option \<Rightarrow> artifact option \<Rightarrow> artifact option \<Rightarrow>
     (string \<times> real) list \<Rightarrow> run" where
  "prediction model_choice model_with model_without scaler_with scaler_without user_input =
     (let input_values = map snd user_input;
          (model, scaler) =
            (if model_choice = ''With Xylene''
             then ((ModelWith, model_with), (ScalerWith, scaler_with))
             else ((ModelWithout, model_without), (ScalerWithout, scaler_without)))
      in case try_body model scaler input_values of
           (cs, Inl e) \<Rightarrow>
             \<lparr>shown = [Error (''Prediction failed: '' @ e)], calls = cs, outcome = Stopped\<rparr>
         | (cs, Inr predicted_aqi) \<Rightarrow>
             \<lparr>shown = results_display (calibrated_aqi predicted_aqi), calls = cs,
              outcome = Completed\<rparr>)"

subsection \<open>The whole script\<close>

definition footer :: "ui_event list" where
  "footer =
     [Markdown ''---'',
      Caption (''Developed by [Your Name] | Powered by Streamlit & XGBoost '' @
        [CHR 0xF0, CHR 0x9F, CHR 0x8C, CHR 0xBF])]"

definition app :: "env \<Rightarrow> run" where
  "app e =
     (let (ev1, model_with) = load_pickle (files e) ''best_model_with_Xylene.pkl'';
          (ev2, model_without) = load_pickle (files e) ''best_model.pkl'';
          (ev3, scaler_with) = load_pickle (files e) ''scaler_with.pkl'';
          (ev4, scaler_without) = load_pickle (files e) ''scaler_without.pkl'';
          evs = [PageConfig ''AQI Prediction App'' fog ''centered''] @ ev1 @ ev2 @ ev3 @ ev4
      in if \<not> py_all [model_with, model_without, scaler_with, scaler_without]
         then \<lparr>shown = evs @ [Error missing_message], calls = [], outcome = Stopped\<rparr>
         else
           (let model_choice = radio_choice e
            in case input_loop (number_inputs e) 0 (selected_features model_choice)
                      (evs @ interface_head) [] of
                 (evs, Inl k) \<Rightarrow> \<lparr>shown = evs, calls = [], outcome = KeyError k\<rparr>
               | (evs, Inr user_input) \<Rightarrow>
                   (let evs = evs @ [Button ([CHR 0xF0, CHR 0x9F, CHR 0x94, CHR 0x8D] @ '' Predict AQI'')]
                    in if button_pressed e
                       then
                         (let r = prediction model_choice model_with model_without scaler_with
                                    scaler_without user_input
                          in if outcome r = Stopped
                             then \<lparr>shown = evs @ shown r, calls = calls r, outcome = Stopped\<rparr>
                             else \<lparr>shown = evs @ shown r @ footer, calls = calls r,
                                   outcome = Completed\<rparr>)
                       else \<lparr>shown = evs @ footer, calls = [], outcome = Completed\<rparr>)))"

subsection \<open>Example environments\<close>

text \<open>
  Stand-ins for the pickled objects, used to run the script on concrete inputs: a scaler
  that returns its input, a model that predicts 90 for every row, and a scaler whose
  \<open>transform\<close> raises.
\<close>

definition mock_scaler :: artifact where
  "mock_scaler =
     \<lparr>truthy = True, transform = (\<lambda>x. Inr x),
      predict = (\<lambda>x. Inl ''object has no attribute predict'')\<rparr>"

definition mock_model :: artifact where
  "mock_model =
     \<lparr>truthy = True, transform = (\<lambda>x. Inl ''object has no attribute transform''),
      predict = (\<lambda>x. Inr [90])\<rparr>"

definition failing_scaler :: artifact where
  "failing_scaler =
     \<lparr>truthy = True, transform = (\<lambda>x. Inl ''shape mismatch''),
      predict = (\<lambda>x. Inl ''object has no attribute predict'')\<rparr>"

definition mock_files :: "string \<Rightarrow> exn + artifact option" where
  "mock_files path =
     (if path = ''best_model_with_Xylene.pkl'' \<or> path = ''best_model.pkl''
      then Inr (Some mock_model)
      else if path = ''scaler_with.pkl'' \<or> path = ''scaler_without.pkl''
      then Inr (Some mock_scaler)
      else Inl ''No such file or directory'')"

text \<open>All four files present, mode "Without Xylene", every field left at 0, button pressed.\<close>

definition mock_env :: env where
  "mock_env =
     \<lparr>files = mock_files, radio_choice = ''Without Xylene'', number_inputs = (\<lambda>label. 0),
      button_pressed = True\<rparr>"

text \<open>The same with the file of the "with" scaler missing.\<close>

definition missing_env :: env where
  "missing_env =
     mock_env\<lparr>files := (\<lambda>path. if path = ''scaler_with.pkl''
                                then Inl ''No such file or directory'' else mock_files path)\<rparr>"

text \<open>The same as \<open>mock_env\<close> with every file holding the scaler whose \<open>transform\<close> raises.\<close>

definition failing_env :: env where
  "failing_env = mock_env\<lparr>files := (\<lambda>path. Inr (Some failing_scaler))\<rparr>"

section \<open>Properties of calibration and bucket assignment\<close>

text \<open>
  C1. For every real raw prediction \<open>r\<close>, the calibration step computes the clamp of
  \<open>1.05 * r + 10\<close> to the interval from 0 to 500: a value of \<open>1.05 * r + 10\<close> below 0
  becomes 0, a value above 500 becomes 500, and a value in between is unchanged.
\<close>

theorem calibrated_aqi_is_clamp:
  "calibrated_aqi r = spec_clamp (1.05 * r + 10) 0 500 \<and>
   calibrated_aqi r =
     (if 1.05 * r + 10 < 0 then 0 else if 500 < 1.05 * r + 10 then 500 else 1.05 * r + 10)"
  by (simp add: calibrated_aqi_def np_clip_def spec_clamp_def Let_def min_def max_def)

theorem calibrated_aqi_is_clamp_witness:
  "calibrated_aqi 90 = 104.5 \<and> calibrated_aqi 1000 = 500 \<and> calibrated_aqi (- 100) = 0"
  using calibrated_aqi_is_clamp [of 90] calibrated_aqi_is_clamp [of 1000]
    calibrated_aqi_is_clamp [of "- 100"]
  by (simp add: spec_clamp_def)

text \<open>
  C2. The bucket classification is inclusive at the upper end of each band: the values
  50.0, 50.01, 100.0, 100.01 and 500.0 are labelled Good, Satisfactory, Satisfactory,
  Moderate and Severe, and the value 0.0, which is what clipping makes of -5.0, is
  labelled Good. In general the label of a value is decided by the first of the bounds
  50, 100, 200, 300, 400 that the value does not exceed.
\<close>

theorem assign_aqi_bucket_boundaries:
  "fst (assign_aqi_bucket 50.0) = ''Good'' \<and>
   fst (assign_aqi_bucket 50.01) = ''Satisfactory'' \<and>
   fst (assign_aqi_bucket 100.0) = ''Satisfactory'' \<and>
   fst (assign_aqi_bucket 100.01) = ''Moderate'' \<and>
   fst (assign_aqi_bucket 500.0) = ''Severe'' \<and>
   np_clip (- 5.0) 0 500 = 0.0 \<and>
   fst (assign_aqi_bucket (np_clip (- 5.0) 0 500)) = ''Good'' \<and>
   fst (assign_aqi_bucket 0.0) = ''Good'' \<and>
   (fst (assign_aqi_bucket v) = ''Good'') = (v \<le> 50) \<and>
   (fst (assign_aqi_bucket v) = ''Satisfactory'') = (50 < v \<and> v \<le> 100) \<and>
   (fst (assign_aqi_bucket v) = ''Moderate'') = (100 < v \<and> v \<le> 200) \<and>
   (fst (assign_aqi_bucket v) = ''Poor'') = (200 < v \<and> v \<le> 300) \<and>
   (fst (assign_aqi_bucket v) = ''Very Poor'') = (300 < v \<and> v \<le> 400) \<and>
   (fst (assign_aqi_bucket v) = ''Severe'') = (400 < v)"
  by (simp add: assign_aqi_bucket_def np_clip_def)

theorem assign_aqi_bucket_boundaries_witness:
  "fst (assign_aqi_bucket 200) = ''Moderate'' \<and> fst (assign_aqi_bucket 200.01) = ''Poor'' \<and>
   fst (assign_aqi_bucket 400) = ''Very Poor'' \<and> fst (assign_aqi_bucket 400.01) = ''Severe''"
  using assign_aqi_bucket_boundaries [of 200] assign_aqi_bucket_boundaries [of "200.01"]
    assign_aqi_bucket_boundaries [of 400] assign_aqi_bucket_boundaries [of "400.01"]
  by simp

text \<open>
  C3, as the specification states it: the six bands, each open at its lower end, cover
  the closed range from 0 to 500, so that every value of the range lies in exactly one
  band. This fails at the value 0: none of the six bands as listed holds it, while the
  code classifies it as Good.
\<close>

theorem spec_bands_miss_zero:
  "(0::real) \<le> 0 \<and> (0::real) \<le> 500 \<and> length (bands_holding spec_bands 0) \<noteq> 1 \<and>
   bands_holding spec_bands 0 = [] \<and> assign_aqi_bucket 0 = (''Good'', green_circle)"
  by (simp add: bands_holding_def spec_bands_def in_band_def assign_aqi_bucket_def)

text \<open>
  C3, amended: with the lower end 0 of the first band belonging to it, that is with the
  bands [0,50], (50,100], (100,200], (200,300], (300,400], (400,500], every value of
  the closed range from 0 to 500 lies in exactly one band, and the bucket function
  returns the label and marker of that band. Above 0 the same holds of the bands as the
  specification lists them.
\<close>

theorem closed_bands_partition:
  assumes "0 \<le> v" and "v \<le> 500"
  shows "map snd (bands_holding closed_bands v) = [assign_aqi_bucket v] \<and>
         length (bands_holding closed_bands v) = 1 \<and>
         (0 < v \<longrightarrow> map snd (bands_holding spec_bands v) = [assign_aqi_bucket v])"
  using assms
  by (simp add: bands_holding_def closed_bands_def spec_bands_def in_band_def
      assign_aqi_bucket_def)

theorem closed_bands_partition_witness:
  "(0::real) \<le> 0 \<and> (0::real) \<le> 500 \<and>
   map snd (bands_holding closed_bands 0) = [(''Good'', green_circle)] \<and>
   (0::real) \<le> 104.5 \<and> (104.5::real) \<le> 500 \<and> (0::real) < 104.5 \<and>
   map snd (bands_holding spec_bands 104.5) = [(''Moderate'', orange_circle)] \<and>
   map snd (bands_holding closed_bands 500) = [(''Severe'', black_circle)]"
  using closed_bands_partition [of 0] closed_bands_partition [of "104.5"]
    closed_bands_partition [of 500]
  by (simp add: assign_aqi_bucket_def)

text \<open>
  C8. The calibration is monotonic non-decreasing: whenever \<open>r1 \<le> r2\<close>, the calibrated
  value of \<open>r1\<close> is at most the calibrated value of \<open>r2\<close>.
\<close>

theorem calibrated_aqi_mono:
  assumes "r1 \<le> r2"
  shows "calibrated_aqi r1 \<le> calibrated_aqi r2"
proof -
  have "1.05 * r1 + 10 \<le> 1.05 * r2 + 10"
    using assms by simp
  then have "min (max (1.05 * r1 + 10) 0) 500 \<le> min (max (1.05 * r2 + 10) 0) 500"
    by (intro min.mono max.mono) simp_all
  then show ?thesis
    by (simp add: calibrated_aqi_def np_clip_def Let_def)
qed

theorem calibrated_aqi_mono_witness:
  "(3::real) \<le> 7 \<and> calibrated_aqi 3 \<le> calibrated_aqi 7 \<and>
   (- 100::real) \<le> - 50 \<and> calibrated_aqi (- 100) \<le> calibrated_aqi (- 50)"
  using calibrated_aqi_mono [of 3 7] calibrated_aqi_mono [of "- 100" "- 50"]
  by simp

text \<open>
  C9. The bucket function is total over the reals, also outside the range from 0 to
  500: every value gets one of the six fixed pairs of a label and a marker, which are
  pairwise different; every value up to 50, negative ones included, gets Good with the
  green circle, and every value above 400, also above 500, gets Severe with the black
  circle. No branch of the function fails.
\<close>

theorem assign_aqi_bucket_total:
  "assign_aqi_bucket aqi \<in>
     {(''Good'', green_circle), (''Satisfactory'', yellow_circle), (''Moderate'', orange_circle),
      (''Poor'', red_circle), (''Very Poor'', purple_circle), (''Severe'', black_circle)} \<and>
   distinct [(''Good'', green_circle), (''Satisfactory'', yellow_circle),
      (''Moderate'', orange_circle), (''Poor'', red_circle), (''Very Poor'', purple_circle),
      (''Severe'', black_circle)] \<and>
   (aqi \<le> 50 \<longrightarrow> assign_aqi_bucket aqi = (''Good'', green_circle)) \<and>
   (400 < aqi \<longrightarrow> assign_aqi_bucket aqi = (''Severe'', black_circle))"
  by (simp add: assign_aqi_bucket_def)

theorem assign_aqi_bucket_total_witness:
  "(- 7::real) \<le> 50 \<and> assign_aqi_bucket (- 7) = (''Good'', green_circle) \<and>
   (400::real) < 1060 \<and> assign_aqi_bucket 1060 = (''Severe'', black_circle)"
  using assign_aqi_bucket_total [of "- 7"] assign_aqi_bucket_total [of 1060]
  by simp

section \<open>Properties of the script\<close>

subsection \<open>Auxiliary facts\<close>

lemma load_pickle_Inr: "fs path = Inr obj \<Longrightarrow> load_pickle fs path = ([], obj)"
  by (simp add: load_pickle_def)

lemma load_pickle_Inl:
  "fs path = Inl x \<Longrightarrow>
   load_pickle fs path =
     ([Error (cross_mark @ '' Failed to load file: '' @ path @ [CHR 0x0A] @ ''Error: '' @ x)], None)"
  by (simp add: load_pickle_def)

lemma load_pickle_shows_errors:
  "ev \<in> set (fst (load_pickle fs path)) \<Longrightarrow> \<exists>m. ev = Error m"
  by (auto simp: load_pickle_def split: sum.splits)

text \<open>The script with the four loads named by their two components.\<close>

lemma app_unfold:
  "app e =
     (let evs = [PageConfig ''AQI Prediction App'' fog ''centered''] @
                fst (load_pickle (files e) ''best_model_with_Xylene.pkl'') @
                fst (load_pickle (files e) ''best_model.pkl'') @
                fst (load_pickle (files e) ''scaler_with.pkl'') @
                fst (load_pickle (files e) ''scaler_without.pkl'');
          model_with = snd (load_pickle (files e) ''best_model_with_Xylene.pkl'');
          model_without = snd (load_pickle (files e) ''best_model.pkl'');
          scaler_with = snd (load_pickle (files e) ''scaler_with.pkl'');
          scaler_without = snd (load_pickle (files e) ''scaler_without.pkl'')
      in if \<not> py_all [model_with, model_without, scaler_with, scaler_without]
         then \<lparr>shown = evs @ [Error missing_message], calls = [], outcome = Stopped\<rparr>
         else
           (case input_loop (number_inputs e) 0 (selected_features (radio_choice e))
                      (evs @ interface_head) [] of
                 (evs, Inl k) \<Rightarrow> \<lparr>shown = evs, calls = [], outcome = KeyError k\<rparr>
               | (evs, Inr user_input) \<Rightarrow>
                   (let evs = evs @ [Button ([CHR 0xF0, CHR 0x9F, CHR 0x94, CHR 0x8D] @ '' Predict AQI'')]
                    in if button_pressed e
                       then
                         (let r = prediction (radio_choice e) model_with model_without scaler_with
                                    scaler_without user_input
                          in if outcome r = Stopped
                             then \<lparr>shown = evs @ shown r, calls = calls r, outcome = Stopped\<rparr>
                             else \<lparr>shown = evs @ shown r @ footer, calls = calls r,
                                   outcome = Completed\<rparr>)
                       else \<lparr>shown = evs @ footer, calls = [], outcome = Completed\<rparr>)))"
  by (simp add: app_def Let_def case_prod_beta)

text \<open>
  The input loop on either schema never meets a missing unit: it shows one field per
  feature, column by column, and fills \<open>user_input\<close> in the schema's order.
\<close>

lemma input_loop_selected:
  "input_loop inputs 0 (selected_features model_choice) evs [] =
     (evs @ map (\<lambda>(i, f). InColumn (i mod 3)
                   (NumberInput (f @ '' ('' @ (if f = ''CO'' then mg_m3 else ug_m3) @ '')'')))
              (enumerate 0 (selected_features model_choice)),
      Inr (map (\<lambda>f. (f, inputs (f @ '' ('' @ (if f = ''CO'' then mg_m3 else ug_m3) @ '')'')))
            (selected_features model_choice)))"
  by (simp add: selected_features_def features_with_def features_without_def units_def Let_def)

lemma app_halts_at_startup:
  assumes "\<not> py_all [snd (load_pickle (files e) ''best_model_with_Xylene.pkl''),
             snd (load_pickle (files e) ''best_model.pkl''),
             snd (load_pickle (files e) ''scaler_with.pkl''),
             snd (load_pickle (files e) ''scaler_without.pkl'')]"
  shows "app e =
     \<lparr>shown = [PageConfig ''AQI Prediction App'' fog ''centered''] @
                fst (load_pickle (files e) ''best_model_with_Xylene.pkl'') @
                fst (load_pickle (files e) ''best_model.pkl'') @
                fst (load_pickle (files e) ''scaler_with.pkl'') @
                fst (load_pickle (files e) ''scaler_without.pkl'') @
                [Error missing_message],
      calls = [], outcome = Stopped\<rparr>"
  using assms by (simp add: app_unfold Let_def)

lemma app_after_startup:
  assumes "files e ''best_model_with_Xylene.pkl'' = Inr (Some mw)" and "truthy mw"
    and "files e ''best_model.pkl'' = Inr (Some mwo)" and "truthy mwo"
    and "files e ''scaler_with.pkl'' = Inr (Some sw)" and "truthy sw"
    and "files e ''scaler_without.pkl'' = Inr (Some swo)" and "truthy swo"
    and "button_pressed e"
    and "r = prediction (radio_choice e) (Some mw) (Some mwo) (Some sw) (Some swo)
               (map (\<lambda>f. (f, number_inputs e
                      (f @ '' ('' @ (if f = ''CO'' then mg_m3 else ug_m3) @ '')'')))
                  (selected_features (radio_choice e)))"
  shows "app e =
     \<lparr>shown = [PageConfig ''AQI Prediction App'' fog ''centered''] @ interface_head @
          map (\<lambda>(i, f). InColumn (i mod 3)
                 (NumberInput (f @ '' ('' @ (if f = ''CO'' then mg_m3 else ug_m3) @ '')'')))
            (enumerate 0 (selected_features (radio_choice e))) @
          [Button ([CHR 0xF0, CHR 0x9F, CHR 0x94, CHR 0x8D] @ '' Predict AQI'')] @
          shown r @ (if outcome r = Stopped then [] else footer),
      calls = calls r,
      outcome = (if outcome r = Stopped then Stopped else Completed)\<rparr>"
  using assms
  by (simp add: app_unfold load_pickle_Inr py_all_def py_bool_def input_loop_selected Let_def)

lemma prediction_raises:
  assumes "py_transform scaler (map snd user_input) = Inl x \<or>
           (\<exists>scaled. py_transform scaler (map snd user_input) = Inr scaled \<and>
              (py_predict model scaled = Inl x \<or>
               (\<exists>out. py_predict model scaled = Inr out \<and> item0 out = Inl x)))"
    and "model = (if model_choice = ''With Xylene'' then model_with else model_without)"
    and "scaler = (if model_choice = ''With Xylene'' then scaler_with else scaler_without)"
    and "r = prediction model_choice model_with model_without scaler_with scaler_without user_input"
  shows "shown r = [Error (''Prediction failed: '' @ x)] \<and> outcome r = Stopped \<and>
         length (calls r) \<le> 2 \<and> distinct (calls r)"
  using assms by (auto simp: prediction_def try_body_def Let_def)

lemma prediction_calls:
  "set (calls (prediction model_choice model_with model_without scaler_with scaler_without user_input))
     \<subseteq> (if model_choice = ''With Xylene'' then {Transform ScalerWith, Predict ModelWith}
          else {Transform ScalerWithout, Predict ModelWithout})"
  by (auto simp: prediction_def try_body_def Let_def split: sum.splits)

lemma app_calls:
  "calls (app e) = [] \<or>
   (\<exists>user_input. calls (app e) =
      calls (prediction (radio_choice e)
        (snd (load_pickle (files e) ''best_model_with_Xylene.pkl''))
        (snd (load_pickle (files e) ''best_model.pkl''))
        (snd (load_pickle (files e) ''scaler_with.pkl''))
        (snd (load_pickle (files e) ''scaler_without.pkl'')) user_input))"
  by (auto simp: app_unfold Let_def split: prod.splits sum.splits)

lemma mock_env_calls: "calls (app mock_env) = [Transform ScalerWithout, Predict ModelWithout]"
  by (simp add: app_unfold mock_env_def mock_files_def mock_model_def mock_scaler_def
      load_pickle_def py_all_def py_bool_def input_loop_selected prediction_def try_body_def
      py_transform_def py_predict_def item0_def Let_def)

subsection \<open>The claims about the script\<close>

text \<open>
  C4. In every run the scaler and the model are chosen by the mode alone. The only
  methods a run calls are \<open>transform\<close> of \<open>scaler_with\<close> and \<open>predict\<close> of \<open>model_with\<close>
  in mode "With Xylene", and those of \<open>scaler_without\<close> and \<open>model_without\<close> for any
  other choice. In mode "With Xylene" the result shown is computed from what
  \<open>scaler_with\<close> and \<open>model_with\<close> return, and the prediction step is the same whatever
  objects the other two variables hold; for any other choice the same holds with the
  two pairs exchanged. So a scaler of one mode is never combined with a model of the
  other.
\<close>

theorem mode_selects_matching_pair:
  "set (calls (app e)) \<subseteq>
     (if radio_choice e = ''With Xylene'' then {Transform ScalerWith, Predict ModelWith}
      else {Transform ScalerWithout, Predict ModelWithout}) \<and>
   (py_transform scaler_with (map snd user_input) = Inr scaled \<and>
    py_predict model_with scaled = Inr (y # ys) \<longrightarrow>
      shown (prediction ''With Xylene'' model_with model_without scaler_with scaler_without
        user_input) = results_display (calibrated_aqi y)) \<and>
   (model_choice \<noteq> ''With Xylene'' \<and>
    py_transform scaler_without (map snd user_input) = Inr scaled \<and>
    py_predict model_without scaled = Inr (y # ys) \<longrightarrow>
      shown (prediction model_choice model_with model_without scaler_with scaler_without
        user_input) = results_display (calibrated_aqi y)) \<and>
   prediction ''With Xylene'' model_with model_without scaler_with scaler_without user_input =
     prediction ''With Xylene'' model_with other_model scaler_with other_scaler user_input \<and>
   (model_choice \<noteq> ''With Xylene'' \<longrightarrow>
      prediction model_choice model_with model_without scaler_with scaler_without user_input =
        prediction model_choice other_model model_without other_scaler scaler_without user_input)"
proof -
  have "set (calls (app e)) \<subseteq>
     (if radio_choice e = ''With Xylene'' then {Transform ScalerWith, Predict ModelWith}
      else {Transform ScalerWithout, Predict ModelWithout})"
    using app_calls [of e] prediction_calls [of "radio_choice e"] by fastforce
  then show ?thesis
    by (simp add: prediction_def try_body_def item0_def Let_def)
qed

theorem mode_selects_matching_pair_witness:
  "calls (app mock_env) = [Transform ScalerWithout, Predict ModelWithout] \<and>
   set (calls (app mock_env)) \<subseteq> {Transform ScalerWithout, Predict ModelWithout} \<and>
   shown (prediction ''With Xylene'' (Some mock_model) None (Some mock_scaler) None
     [(''PM2.5'', 0)]) = results_display (calibrated_aqi 90)"
proof -
  have "py_transform (Some mock_scaler) (map snd [(''PM2.5'', 0::real)]) = Inr [0] \<and>
        py_predict (Some mock_model) [0] = Inr [90]"
    by (simp add: py_transform_def py_predict_def mock_scaler_def mock_model_def)
  then show ?thesis
    using mock_env_calls
      mode_selects_matching_pair [where e = mock_env and scaler_with = "Some mock_scaler"
        and model_with = "Some mock_model" and user_input = "[(''PM2.5'', 0)]"
        and scaled = "[0]" and y = 90 and ys = "[]" and model_without = None
        and scaler_without = None]
    by (simp add: mock_env_def)
qed

text \<open>
  C5. The schema of mode "without" is a fixed list of 11 pollutant names. The schema of
  mode "with" is that list with Xylene appended, 12 names with Xylene as the twelfth.
  The input loop stores one value per name of the selected schema, in the schema's
  order, so the row given to the scaler follows that order.
\<close>

theorem feature_schemas:
  "features_without =
     [''PM2.5'', ''PM10'', ''NO'', ''NO2'', ''NOx'', ''NH3'', ''CO'', ''SO2'', ''O3'',
      ''Benzene'', ''Toluene''] \<and>
   length features_without = 11 \<and>
   features_with = features_without @ [''Xylene''] \<and>
   length features_with = 12 \<and>
   features_with ! 11 = ''Xylene'' \<and>
   distinct features_with \<and>
   selected_features ''Without Xylene'' = features_without \<and>
   selected_features ''With Xylene'' = features_with \<and>
   snd (input_loop inputs 0 (selected_features model_choice) evs []) =
     Inr (map (\<lambda>f. (f, inputs (f @ '' ('' @ (if f = ''CO'' then mg_m3 else ug_m3) @ '')'')))
            (selected_features model_choice))"
  by (simp add: selected_features_def features_with_def features_without_def units_def Let_def)

theorem feature_schemas_witness:
  "snd (input_loop (\<lambda>label. 0) 0 (selected_features ''Without Xylene'') [] []) =
     Inr [(''PM2.5'', 0), (''PM10'', 0), (''NO'', 0), (''NO2'', 0), (''NOx'', 0), (''NH3'', 0),
          (''CO'', 0), (''SO2'', 0), (''O3'', 0), (''Benzene'', 0), (''Toluene'', 0)]"
proof -
  have "snd (input_loop (\<lambda>label. 0) 0 (selected_features ''Without Xylene'') [] []) =
      Inr (map (\<lambda>f. (f, 0)) (selected_features ''Without Xylene''))"
    using feature_schemas [of "\<lambda>label. 0" "''Without Xylene''" "[]"] by blast
  then show ?thesis
    by (simp add: selected_features_def features_without_def)
qed

text \<open>
  C6. If one of the four artifact files fails to load, the run stops at startup: it
  ends by \<open>st.stop()\<close>, it calls no method of any artifact, it shows the error that
  names the failing path with the cause, and everything it shows is the page
  configuration or an error, so no radio, number field or button appears.
\<close>

theorem missing_artifact_halts:
  assumes "path \<in> set artifact_paths" and "files e path = Inl x"
  shows "outcome (app e) = Stopped \<and> calls (app e) = [] \<and>
         Error (cross_mark @ '' Failed to load file: '' @ path @ [CHR 0x0A] @ ''Error: '' @ x)
           \<in> set (shown (app e)) \<and>
         (\<forall>ev \<in> set (shown (app e)). (\<exists>a b c. ev = PageConfig a b c) \<or> (\<exists>m. ev = Error m))"
proof -
  have failed: "load_pickle (files e) path =
      ([Error (cross_mark @ '' Failed to load file: '' @ path @ [CHR 0x0A] @ ''Error: '' @ x)],
       None)"
    using assms(2) by (rule load_pickle_Inl)
  have "\<not> py_all [snd (load_pickle (files e) ''best_model_with_Xylene.pkl''),
             snd (load_pickle (files e) ''best_model.pkl''),
             snd (load_pickle (files e) ''scaler_with.pkl''),
             snd (load_pickle (files e) ''scaler_without.pkl'')]"
    using assms(1) failed by (auto simp: artifact_paths_def py_all_def py_bool_def)
  then have run: "app e =
     \<lparr>shown = [PageConfig ''AQI Prediction App'' fog ''centered''] @
                fst (load_pickle (files e) ''best_model_with_Xylene.pkl'') @
                fst (load_pickle (files e) ''best_model.pkl'') @
                fst (load_pickle (files e) ''scaler_with.pkl'') @
                fst (load_pickle (files e) ''scaler_without.pkl'') @
                [Error missing_message],
      calls = [], outcome = Stopped\<rparr>"
    by (rule app_halts_at_startup)
  have named:
    "Error (cross_mark @ '' Failed to load file: '' @ path @ [CHR 0x0A] @ ''Error: '' @ x)
       \<in> set (shown (app e))"
    using assms(1) failed by (auto simp: run artifact_paths_def)
  have only:
    "\<forall>ev \<in> set (shown (app e)). (\<exists>a b c. ev = PageConfig a b c) \<or> (\<exists>m. ev = Error m)"
    by (auto simp: run dest: load_pickle_shows_errors)
  show ?thesis
    using named only by (simp add: run)
qed

theorem missing_artifact_halts_witness:
  "''scaler_with.pkl'' \<in> set artifact_paths \<and>
   files missing_env ''scaler_with.pkl'' = Inl ''No such file or directory'' \<and>
   outcome (app missing_env) = Stopped \<and> calls (app missing_env) = [] \<and>
   Error (cross_mark @ '' Failed to load file: scaler_with.pkl'' @ [CHR 0x0A] @
          ''Error: No such file or directory'') \<in> set (shown (app missing_env))"
proof -
  have listed: "''scaler_with.pkl'' \<in> set artifact_paths"
    by (simp add: artifact_paths_def)
  have fails: "files missing_env ''scaler_with.pkl'' = Inl ''No such file or directory''"
    by (simp add: missing_env_def)
  show ?thesis
    using listed fails missing_artifact_halts [OF listed fails] by simp
qed

text \<open>
  C7. Let all four artifacts be loaded and the button be pressed. If \<open>transform\<close> of the
  scaler chosen for the mode raises on the input row, or \<open>predict\<close> of the chosen model
  raises on the scaled row, then the exception is caught: the run shows the interface
  followed by the message "Prediction failed:" with the exception's text and nothing
  after it (no metric, no category, no table of ranges, no footer), it ends by
  \<open>st.stop()\<close>, and it has called each of the two methods at most once.
\<close>

theorem prediction_failure_aborts:
  assumes "files e ''best_model_with_Xylene.pkl'' = Inr (Some mw)" and "truthy mw"
    and "files e ''best_model.pkl'' = Inr (Some mwo)" and "truthy mwo"
    and "files e ''scaler_with.pkl'' = Inr (Some sw)" and "truthy sw"
    and "files e ''scaler_without.pkl'' = Inr (Some swo)" and "truthy swo"
    and "button_pressed e"
    and "model = (if radio_choice e = ''With Xylene'' then mw else mwo)"
    and "scaler = (if radio_choice e = ''With Xylene'' then sw else swo)"
    and "row = map (\<lambda>f. number_inputs e
                     (f @ '' ('' @ (if f = ''CO'' then mg_m3 else ug_m3) @ '')''))
                 (selected_features (radio_choice e))"
    and "transform scaler row = Inl x \<or>
         (\<exists>scaled. transform scaler row = Inr scaled \<and> predict model scaled = Inl x)"
  shows "outcome (app e) = Stopped \<and>
         shown (app e) =
           [PageConfig ''AQI Prediction App'' fog ''centered''] @ interface_head @
           map (\<lambda>(i, f). InColumn (i mod 3)
                  (NumberInput (f @ '' ('' @ (if f = ''CO'' then mg_m3 else ug_m3) @ '')'')))
             (enumerate 0 (selected_features (radio_choice e))) @
           [Button ([CHR 0xF0, CHR 0x9F, CHR 0x94, CHR 0x8D] @ '' Predict AQI''),
            Error (''Prediction failed: '' @ x)] \<and>
         length (calls (app e)) \<le> 2 \<and> distinct (calls (app e))"
proof -
  define user_input where "user_input =
    map (\<lambda>f. (f, number_inputs e (f @ '' ('' @ (if f = ''CO'' then mg_m3 else ug_m3) @ '')'')))
      (selected_features (radio_choice e))"
  define r where
    "r = prediction (radio_choice e) (Some mw) (Some mwo) (Some sw) (Some swo) user_input"
  have row: "map snd user_input = row"
    by (simp add: user_input_def assms(12) comp_def)
  have raised: "py_transform (Some scaler) (map snd user_input) = Inl x \<or>
      (\<exists>scaled. py_transform (Some scaler) (map snd user_input) = Inr scaled \<and>
         (py_predict (Some model) scaled = Inl x \<or>
          (\<exists>out. py_predict (Some model) scaled = Inr out \<and> item0 out = Inl x)))"
    using assms(13) by (auto simp: row py_transform_def py_predict_def)
  have aborted: "shown r = [Error (''Prediction failed: '' @ x)] \<and> outcome r = Stopped \<and>
      length (calls r) \<le> 2 \<and> distinct (calls r)"
    by (rule prediction_raises [OF raised _ _ r_def]) (simp_all add: assms(10,11))
  have "app e =
     \<lparr>shown = [PageConfig ''AQI Prediction App'' fog ''centered''] @ interface_head @
          map (\<lambda>(i, f). InColumn (i mod 3)
                 (NumberInput (f @ '' ('' @ (if f = ''CO'' then mg_m3 else ug_m3) @ '')'')))
            (enumerate 0 (selected_features (radio_choice e))) @
          [Button ([CHR 0xF0, CHR 0x9F, CHR 0x94, CHR 0x8D] @ '' Predict AQI'')] @
          shown r @ (if outcome r = Stopped then [] else footer),
      calls = calls r,
      outcome = (if outcome r = Stopped then Stopped else Completed)\<rparr>"
    by (rule app_after_startup [OF assms(1-9)]) (simp add: r_def user_input_def)
  then show ?thesis
    using aborted by simp
qed

theorem prediction_failure_aborts_witness:
  "files failing_env ''scaler_without.pkl'' = Inr (Some failing_scaler) \<and>
   truthy failing_scaler \<and> button_pressed failing_env \<and>
   transform failing_scaler [0, 0, 0, 0, 0, 0, 0, 0, 0, 0, 0] = Inl ''shape mismatch'' \<and>
   outcome (app failing_env) = Stopped \<and>
   last (shown (app failing_env)) = Error ''Prediction failed: shape mismatch'' \<and>
   length (calls (app failing_env)) \<le> 2"
  using prediction_failure_aborts [where e = failing_env
      and mw = failing_scaler and mwo = failing_scaler and sw = failing_scaler
      and swo = failing_scaler and model = failing_scaler and scaler = failing_scaler
      and row = "[0, 0, 0, 0, 0, 0, 0, 0, 0, 0, 0]" and x = "''shape mismatch''"]
  by (simp add: failing_env_def mock_env_def failing_scaler_def selected_features_def
      features_without_def)

text \<open>
  C10. The load helper lets no exception escape. For every path it returns what was
  unpickled and shows nothing, or, when opening or unpickling raises, it shows one
  error whose text holds the path and the exception's text, and returns \<open>None\<close>.
\<close>

theorem load_pickle_total:
  "(\<forall>obj. fs path = Inr obj \<longrightarrow> load_pickle fs path = ([], obj)) \<and>
   (\<forall>x. fs path = Inl x \<longrightarrow>
      load_pickle fs path =
        ([Error (cross_mark @ '' Failed to load file: '' @ path @ [CHR 0x0A] @ ''Error: '' @ x)],
         None))"
  by (simp add: load_pickle_def)

theorem load_pickle_total_witness:
  "mock_files ''scaler_with.pkl'' = Inr (Some mock_scaler) \<and>
   load_pickle mock_files ''scaler_with.pkl'' = ([], Some mock_scaler) \<and>
   mock_files ''model.pkl'' = Inl ''No such file or directory'' \<and>
   load_pickle mock_files ''model.pkl'' =
     ([Error (cross_mark @ '' Failed to load file: model.pkl'' @ [CHR 0x0A] @
              ''Error: No such file or directory'')], None)"
  using load_pickle_total [of mock_files "''scaler_with.pkl''"]
    load_pickle_total [of mock_files "''model.pkl''"]
  by (simp add: mock_files_def)

end
